theory Spec2Isabelle
  imports Complex_Main "HOL-Library.Word" "HOL-Library.Signed_Division"
begin

section \<open>Numeric conventions\<close>

text \<open>
  Values of C type \<^verbatim>\<open>float\<close> are modelled as real numbers: every arithmetic
  operation is exact. Array-valued buffers are lists; a \<^verbatim>\<open>for\<close> loop over the
  bins is a \<open>fold\<close> over the list of indices it visits, in the order it visits them.
  Sizes of type \<^verbatim>\<open>uint32_t\<close> that are fixed at construction are natural numbers;
  the one counter that is incremented on every frame is a 32-bit word.
\<close>

definition FLT_MIN :: real where
  "FLT_MIN = 1 / 2 ^ 126"

definition fmaxf :: "real \<Rightarrow> real \<Rightarrow> real" where
  "fmaxf a b = max a b"




section \<open>Spectral processor (src/src/spectral\_processor.c)\<close>

definition WHITENING_DECAY_RATE :: real where
  "WHITENING_DECAY_RATE = 1000"

definition WHITENING_FLOOR :: real where
  "WHITENING_FLOOR = 2 / 100"

record SoftBypass =
  tau :: real
  wet_dry_target :: real
  wet_dry :: real

record Whitening =
  residual_max_spectrum :: "real list"
  whitened_residual_spectrum :: "real list"
  max_decay_rate :: real
  whitening_window_count :: "32 word"

record SpectralDenoiseBuilder =
  gain_spectrum :: "real list"
  residual_spectrum :: "real list"
  denoised_spectrum :: "real list"

text \<open>
  The constructor allocates only the power spectrum of \<^verbatim>\<open>ProcessingSpectrums\<close>;
  the phase and magnitude pointers stay null and are never used in this file.
\<close>

record ProcessingSpectrums =
  power_spectrum :: "real list"

text \<open>The parameter block read through \<^verbatim>\<open>self->denoise_parameters\<close>.\<close>

record ProcessorParameters =
  enable :: bool
  learn_noise :: bool
  residual_listen :: bool
  reduction_amount :: real
  whitening_factor :: real
  transient_threshold :: real
  masking_ceiling_limit :: real
  release_time :: real
  noise_rescale :: real

text \<open>
  The gain estimator, the noise estimator and \<^verbatim>\<open>get_fft_power_spectrum\<close> are
  declared in headers whose implementation is not part of the sources at hand. They are
  parameters of the model: \<open>'g\<close> and \<open>'n\<close> are the estimators' private states, and each
  function returns the objects it may write. \<open>float_first_byte old new\<close> stands for
  the float whose first byte in memory is that of \<open>new\<close> and whose other bytes are those
  of \<open>old\<close>.
\<close>

record ('g, 'n) Externals =
  get_fft_power_spectrum :: "real list \<Rightarrow> nat \<Rightarrow> real list \<Rightarrow> nat \<Rightarrow> real list"
  gain_estimation_initialize :: "nat \<Rightarrow> nat \<Rightarrow> nat \<Rightarrow> 'g"
  gain_estimation_run ::
    "'g \<Rightarrow> real list \<Rightarrow> real list \<Rightarrow> real list \<Rightarrow> real \<Rightarrow> real \<Rightarrow> real \<Rightarrow> real \<Rightarrow> 'g \<times> real list"
  noise_estimation_initialize :: "nat \<Rightarrow> 'n"
  noise_estimation_run :: "'n \<Rightarrow> real list \<Rightarrow> real list \<Rightarrow> 'n \<times> real list"
  is_noise_estimation_available :: "'n \<Rightarrow> bool"
  float_first_byte :: "real \<Rightarrow> real \<Rightarrow> real"

text \<open>
  \<open>noise_profile\<close> holds the array behind \<^verbatim>\<open>self->noise_profile->noise_profile\<close>
  and \<open>denoise_parameters\<close> the block behind \<^verbatim>\<open>self->denoise_parameters\<close>; both
  pointers are null (\<open>None\<close>) until the matching \<^verbatim>\<open>load_\<close> function is called.
\<close>

record ('g, 'n) SpectralProcessor =
  sp_fft_size :: nat
  sp_half_fft_size :: nat
  sp_sample_rate :: nat
  sp_hop :: nat
  fft_spectrum :: "real list"
  processed_fft_spectrum :: "real list"
  crossfade_spectrum :: SoftBypass
  whiten_spectrum :: Whitening
  denoise_builder :: SpectralDenoiseBuilder
  processing_spectrums :: ProcessingSpectrums
  gain_estimation :: 'g
  noise_estimation :: 'n
  noise_profile :: "real list option"
  denoise_parameters :: "ProcessorParameters option"

text \<open>
  \<^verbatim>\<open>spectral_processor_initialize\<close>. The unsigned division by a zero overlap factor
  traps, which is the result \<open>None\<close>. All buffers come from \<^verbatim>\<open>calloc\<close>.
\<close>

definition spectral_processor_initialize ::
  "('g, 'n) Externals \<Rightarrow> nat \<Rightarrow> nat \<Rightarrow> nat \<Rightarrow> ('g, 'n) SpectralProcessor option" where
  "spectral_processor_initialize ext sample_rate fft_size overlap_factor =
    (if overlap_factor = 0 then None
     else
       let half = fft_size div 2;
           hop = fft_size div overlap_factor
       in Some \<lparr>
            sp_fft_size = fft_size,
            sp_half_fft_size = half,
            sp_sample_rate = sample_rate,
            sp_hop = hop,
            fft_spectrum = replicate fft_size 0,
            processed_fft_spectrum = replicate (half + 1) 0,
            crossfade_spectrum = \<lparr>
              tau = 1 - exp (- 2 * pi * 25 * 64 / real sample_rate),
              wet_dry_target = 0,
              wet_dry = 0 \<rparr>,
            whiten_spectrum = \<lparr>
              residual_max_spectrum = replicate (half + 1) 0,
              whitened_residual_spectrum = replicate (half + 1) 0,
              max_decay_rate =
                exp (- 1000 / ((WHITENING_DECAY_RATE * real sample_rate) / real hop)),
              whitening_window_count = 0 \<rparr>,
            denoise_builder = \<lparr>
              gain_spectrum = replicate (half + 1) 0,
              residual_spectrum = replicate (half + 1) 0,
              denoised_spectrum = replicate (half + 1) 0 \<rparr>,
            processing_spectrums = \<lparr> power_spectrum = replicate (half + 1) 0 \<rparr>,
            gain_estimation = gain_estimation_initialize ext fft_size sample_rate hop,
            noise_estimation = noise_estimation_initialize ext fft_size,
            noise_profile = None,
            denoise_parameters = None \<rparr>)"

definition load_processor_parameters ::
  "('g, 'n) SpectralProcessor \<Rightarrow> ProcessorParameters \<Rightarrow> ('g, 'n) SpectralProcessor" where
  "load_processor_parameters self new_parameters =
     self\<lparr>denoise_parameters := Some new_parameters\<rparr>"

definition load_noise_profile ::
  "('g, 'n) SpectralProcessor \<Rightarrow> real list \<Rightarrow> ('g, 'n) SpectralProcessor" where
  "load_noise_profile self profile = self\<lparr>noise_profile := Some profile\<rparr>"

text \<open>\<^verbatim>\<open>is_empty\<close>: the loop over \<open>k = 1 .. half_fft_size\<close> with its early return.\<close>

fun is_empty_loop :: "real list \<Rightarrow> nat list \<Rightarrow> bool" where
  "is_empty_loop spectrum [] = True"
| "is_empty_loop spectrum (k # ks) =
     (if spectrum ! k > FLT_MIN then False else is_empty_loop spectrum ks)"

definition is_empty :: "real list \<Rightarrow> nat \<Rightarrow> bool" where
  "is_empty spectrum half_fft_size = is_empty_loop spectrum [1..<Suc half_fft_size]"

definition fft_denoiser_update_wetdry_target ::
  "('g, 'n) SpectralProcessor \<Rightarrow> bool \<Rightarrow> ('g, 'n) SpectralProcessor" where
  "fft_denoiser_update_wetdry_target self en =
     (let cs = crossfade_spectrum self;
          cs = cs\<lparr>wet_dry_target := (if en then 1 else 0)\<rparr>;
          cs = cs\<lparr>wet_dry :=
                 wet_dry cs + (tau cs * (wet_dry_target cs - wet_dry cs) + FLT_MIN)\<rparr>
      in self\<lparr>crossfade_spectrum := cs\<rparr>)"

definition fft_denoiser_soft_bypass ::
  "('g, 'n) SpectralProcessor \<Rightarrow> ('g, 'n) SpectralProcessor" where
  "fft_denoiser_soft_bypass self =
     self\<lparr>processed_fft_spectrum :=
       fold (\<lambda>k p. p[k := (1 - wet_dry (crossfade_spectrum self)) * fft_spectrum self ! k
                            + p ! k * wet_dry (crossfade_spectrum self)])
         [1..<Suc (sp_half_fft_size self)] (processed_fft_spectrum self)\<rparr>"

definition get_denoised_spectrum ::
  "('g, 'n) SpectralProcessor \<Rightarrow> ('g, 'n) SpectralProcessor" where
  "get_denoised_spectrum self =
     self\<lparr>denoise_builder := (denoise_builder self)\<lparr>denoised_spectrum :=
       fold (\<lambda>k d. d[k := fft_spectrum self ! k * gain_spectrum (denoise_builder self) ! k])
         [1..<Suc (sp_half_fft_size self)] (denoised_spectrum (denoise_builder self))\<rparr>\<rparr>"

text \<open>
  \<^verbatim>\<open>residual_spectrum_whitening\<close>. The counter is compared as a float with
  \<^verbatim>\<open>1.f\<close>; the conversion of an unsigned value is monotone and exact on 0, 1 and 2,
  so the test is \<open>1 < unat count\<close>.
\<close>

definition residual_spectrum_whitening ::
  "('g, 'n) SpectralProcessor \<Rightarrow> real \<Rightarrow> ('g, 'n) SpectralProcessor" where
  "residual_spectrum_whitening self wfactor =
     (let ws = whiten_spectrum self;
          count = whitening_window_count ws + 1;
          res = residual_spectrum (denoise_builder self);
          rmax = fold (\<lambda>k m. m[k :=
                   (if 1 < unat count
                    then fmaxf (fmaxf (res ! k) WHITENING_FLOOR) (m ! k * max_decay_rate ws)
                    else fmaxf (res ! k) WHITENING_FLOOR)])
                   [1..<Suc (sp_half_fft_size self)] (residual_max_spectrum ws);
          wr = fold (\<lambda>k (w, r).
                   if r ! k > FLT_MIN
                   then (let w' = w[k := r ! k / rmax ! k]
                         in (w', r[k := (1 - wfactor) * r ! k + wfactor * w' ! k]))
                   else (w, r))
                 [1..<Suc (sp_half_fft_size self)] (whitened_residual_spectrum ws, res)
      in self\<lparr>whiten_spectrum := ws\<lparr>whitening_window_count := count,
                                       residual_max_spectrum := rmax,
                                       whitened_residual_spectrum := fst wr\<rparr>,
               denoise_builder := (denoise_builder self)\<lparr>residual_spectrum := snd wr\<rparr>\<rparr>)"

definition get_residual_spectrum ::
  "('g, 'n) SpectralProcessor \<Rightarrow> real \<Rightarrow> ('g, 'n) SpectralProcessor" where
  "get_residual_spectrum self wfactor =
     (let self = self\<lparr>denoise_builder := (denoise_builder self)\<lparr>residual_spectrum :=
              fold (\<lambda>k r. r[k := fft_spectrum self ! k
                                   - denoised_spectrum (denoise_builder self) ! k])
                [1..<Suc (sp_half_fft_size self)]
                (residual_spectrum (denoise_builder self))\<rparr>\<rparr>
      in if wfactor > 0 then residual_spectrum_whitening self wfactor else self)"

definition get_final_spectrum ::
  "('g, 'n) SpectralProcessor \<Rightarrow> bool \<Rightarrow> real \<Rightarrow> ('g, 'n) SpectralProcessor" where
  "get_final_spectrum self listen amount =
     (if listen
      then self\<lparr>processed_fft_spectrum :=
             fold (\<lambda>k p. p[k := residual_spectrum (denoise_builder self) ! k])
               [1..<Suc (sp_half_fft_size self)] (processed_fft_spectrum self)\<rparr>
      else self\<lparr>processed_fft_spectrum :=
             fold (\<lambda>k p. p[k := denoised_spectrum (denoise_builder self) ! k
                                  + residual_spectrum (denoise_builder self) ! k * amount])
               [1..<Suc (sp_half_fft_size self)] (processed_fft_spectrum self)\<rparr>)"

text \<open>
  The final \<^verbatim>\<open>memcpy\<close> of \<^verbatim>\<open>spectral_processor_run\<close> copies
  \<^verbatim>\<open>sizeof(float) * half_fft_size + 1\<close> bytes: the first \<open>half_fft_size\<close> floats
  whole, and one byte of the float that follows them.
\<close>

definition copy_processed_out ::
  "('g, 'n) Externals \<Rightarrow> real list \<Rightarrow> real list \<Rightarrow> nat \<Rightarrow> real list" where
  "copy_processed_out ext dst src half =
     (take half src @ drop half dst)[half := float_first_byte ext (dst ! half) (src ! half)]"

text \<open>
  \<^verbatim>\<open>spectral_processor_run\<close> returns the processor and the caller's buffer after the
  call; \<open>None\<close> is the null dereference of a processor whose parameters or noise
  profile were never loaded.
\<close>

definition spectral_processor_run ::
  "('g, 'n) Externals \<Rightarrow> ('g, 'n) SpectralProcessor \<Rightarrow> real list
     \<Rightarrow> (('g, 'n) SpectralProcessor \<times> real list) option" where
  "spectral_processor_run ext self0 fft_buffer =
     (case (denoise_parameters self0, noise_profile self0) of
        (Some p, Some noise_spectrum) \<Rightarrow>
          (let self = fft_denoiser_update_wetdry_target self0 (enable p);
               self = self\<lparr>fft_spectrum :=
                        take (sp_fft_size self) fft_buffer
                          @ drop (sp_fft_size self) (fft_spectrum self)\<rparr>;
               self = self\<lparr>processing_spectrums := (processing_spectrums self)\<lparr>
                        power_spectrum :=
                          get_fft_power_spectrum ext (fft_spectrum self) (sp_fft_size self)
                            (power_spectrum (processing_spectrums self))
                            (sp_half_fft_size self)\<rparr>\<rparr>;
               self =
                 (if \<not> is_empty (power_spectrum (processing_spectrums self))
                          (sp_half_fft_size self)
                  then
                    (if learn_noise p
                     then (let r = noise_estimation_run ext (noise_estimation self)
                                     noise_spectrum
                                     (power_spectrum (processing_spectrums self))
                           in self\<lparr>noise_estimation := fst r, noise_profile := Some (snd r)\<rparr>)
                     else
                       (if is_noise_estimation_available ext (noise_estimation self)
                        then
                          (let r = gain_estimation_run ext (gain_estimation self)
                                     (power_spectrum (processing_spectrums self))
                                     noise_spectrum
                                     (gain_spectrum (denoise_builder self))
                                     (transient_threshold p) (masking_ceiling_limit p)
                                     (release_time p) (noise_rescale p);
                               self = self\<lparr>gain_estimation := fst r,
                                          denoise_builder := (denoise_builder self)\<lparr>
                                            gain_spectrum := snd r\<rparr>\<rparr>;
                               self = get_denoised_spectrum self;
                               self = get_residual_spectrum self (whitening_factor p)
                           in get_final_spectrum self (residual_listen p)
                                (reduction_amount p))
                        else self))
                  else self);
               self = fft_denoiser_soft_bypass self
           in Some (self,
                copy_processed_out ext fft_buffer (processed_fft_spectrum self)
                  (sp_half_fft_size self)))
      | _ \<Rightarrow> None)"

text \<open>
  The calls the engine makes for a sequence of frames: for each frame the parameter block
  is loaded and the frame is processed; the buffers handed back are collected.
\<close>

fun spectral_processor_frames ::
  "('g, 'n) Externals \<Rightarrow> ('g, 'n) SpectralProcessor \<Rightarrow> (ProcessorParameters \<times> real list) list
     \<Rightarrow> (('g, 'n) SpectralProcessor \<times> real list list) option" where
  "spectral_processor_frames ext self [] = Some (self, [])"
| "spectral_processor_frames ext self ((p, buffer) # rest) =
     (case spectral_processor_run ext (load_processor_parameters self p) buffer of
        None \<Rightarrow> None
      | Some (self', out) \<Rightarrow>
          (case spectral_processor_frames ext self' rest of
             None \<Rightarrow> None
           | Some (s, outs) \<Rightarrow> Some (s, out # outs)))"

subsection \<open>The stages of one call\<close>

text \<open>
  Names for the processor at three points of \<^verbatim>\<open>spectral_processor_run\<close>, used to
  state its properties: after the statements that precede the test for an empty
  spectrum, after the denoising branch, and just before the soft bypass. Lemma
  \<open>spectral_processor_run_eq\<close> below shows that the function is their composition.
\<close>

definition frame_received ::
  "('g, 'n) Externals \<Rightarrow> ('g, 'n) SpectralProcessor \<Rightarrow> ProcessorParameters \<Rightarrow> real list
     \<Rightarrow> ('g, 'n) SpectralProcessor" where
  "frame_received ext self p buffer =
     (fft_denoiser_update_wetdry_target self (enable p))\<lparr>
        fft_spectrum := take (sp_fft_size self) buffer @ drop (sp_fft_size self) (fft_spectrum self),
        processing_spectrums := (processing_spectrums self)\<lparr>power_spectrum :=
          get_fft_power_spectrum ext
            (take (sp_fft_size self) buffer @ drop (sp_fft_size self) (fft_spectrum self))
            (sp_fft_size self) (power_spectrum (processing_spectrums self))
            (sp_half_fft_size self)\<rparr>\<rparr>"

definition frame_denoised ::
  "('g, 'n) Externals \<Rightarrow> ('g, 'n) SpectralProcessor \<Rightarrow> ProcessorParameters \<Rightarrow> real list
     \<Rightarrow> ('g, 'n) SpectralProcessor" where
  "frame_denoised ext self p noise_spectrum =
     get_final_spectrum
       (get_residual_spectrum
          (get_denoised_spectrum
             (self\<lparr>gain_estimation :=
                     fst (gain_estimation_run ext (gain_estimation self)
                            (power_spectrum (processing_spectrums self)) noise_spectrum
                            (gain_spectrum (denoise_builder self))
                            (transient_threshold p) (masking_ceiling_limit p)
                            (release_time p) (noise_rescale p)),
                   denoise_builder := (denoise_builder self)\<lparr>gain_spectrum :=
                     snd (gain_estimation_run ext (gain_estimation self)
                            (power_spectrum (processing_spectrums self)) noise_spectrum
                            (gain_spectrum (denoise_builder self))
                            (transient_threshold p) (masking_ceiling_limit p)
                            (release_time p) (noise_rescale p))\<rparr>\<rparr>))
          (whitening_factor p))
       (residual_listen p) (reduction_amount p)"

definition frame_processed ::
  "('g, 'n) Externals \<Rightarrow> ('g, 'n) SpectralProcessor \<Rightarrow> ProcessorParameters \<Rightarrow> real list
     \<Rightarrow> ('g, 'n) SpectralProcessor" where
  "frame_processed ext self p noise_spectrum =
     (if is_empty (power_spectrum (processing_spectrums self)) (sp_half_fft_size self)
      then self
      else if learn_noise p
      then self\<lparr>noise_estimation :=
                   fst (noise_estimation_run ext (noise_estimation self) noise_spectrum
                          (power_spectrum (processing_spectrums self))),
                 noise_profile :=
                   Some (snd (noise_estimation_run ext (noise_estimation self) noise_spectrum
                                (power_spectrum (processing_spectrums self))))\<rparr>
      else if is_noise_estimation_available ext (noise_estimation self)
      then frame_denoised ext self p noise_spectrum
      else self)"

subsection \<open>Collaborators and inputs for concrete runs\<close>

text \<open>
  A power spectrum in the half-complex layout (bin \<open>k\<close> real at index \<open>k\<close>, imaginary at
  index \<open>n - k\<close>; the first and the last bin real only), a gain estimator that halves
  every bin, and a noise estimator that stores the frame it is given and is available
  once it has run.
\<close>

definition halfcomplex_power :: "real list \<Rightarrow> nat \<Rightarrow> real list \<Rightarrow> nat \<Rightarrow> real list" where
  "halfcomplex_power spectrum n pw half =
     map (\<lambda>k. if k = 0 \<or> k = half then spectrum ! k * spectrum ! k
               else spectrum ! k * spectrum ! k + spectrum ! (n - k) * spectrum ! (n - k))
       [0..<Suc half]"

definition stub_externals :: "(unit, bool) Externals" where
  "stub_externals = \<lparr>
     get_fft_power_spectrum = halfcomplex_power,
     gain_estimation_initialize = (\<lambda>fft_size sample_rate hop. ()),
     gain_estimation_run = (\<lambda>g pw noise gain tp mc rel rescale. (g, map (\<lambda>x. 1 / 2) gain)),
     noise_estimation_initialize = (\<lambda>fft_size. False),
     noise_estimation_run = (\<lambda>n noise pw. (True, pw)),
     is_noise_estimation_available = (\<lambda>n. n),
     float_first_byte = (\<lambda>old new. old) \<rparr>"

text \<open>
  Parameters with the processor enabled and whitening at full strength, and a processor
  for an FFT size of 4 with overlap factor 2, fresh from its constructor, with a noise
  profile of three bins loaded.
\<close>

definition example_parameters :: ProcessorParameters where
  "example_parameters = \<lparr> enable = True, learn_noise = False, residual_listen = False,
     reduction_amount = 0, whitening_factor = 1, transient_threshold = 1,
     masking_ceiling_limit = 0, release_time = 0, noise_rescale = 1 \<rparr>"

definition example_processor :: "(unit, bool) SpectralProcessor" where
  "example_processor =
     load_noise_profile (the (spectral_processor_initialize stub_externals 48000 4 2)) [0, 0, 0]"

text \<open>
  Two frames for the example processor: the first is learnt as noise, the second is
  denoised with residual whitening switched on.
\<close>

definition example_frames :: "(ProcessorParameters \<times> real list) list" where
  "example_frames = [(example_parameters\<lparr>learn_noise := True\<rparr>, [0, 1, 0, 0]),
                     (example_parameters, [0, 1, 0, 0])]"

section \<open>STFT processor (src/src/stft\_processor.c)\<close>


datatype WindowTypes = HANN_WINDOW | HAMMING_WINDOW | BLACKMAN_WINDOW | VORBIS_WINDOW




record 'd STFTProcessor =
  st_fft_size :: int
  st_half_fft_size :: int
  st_window_option_input :: int
  st_window_option_output :: int
  st_overlap_factor :: int
  st_overlap_scale_factor :: real
  st_hop :: int
  st_input_latency :: int
  st_read_position :: int
  st_input_window :: "real list"
  st_output_window :: "real list"
  st_in_fifo :: "real list"
  st_out_fifo :: "real list"
  st_output_accum :: "real list"
  st_input_fft_buffer :: "real list"
  st_output_fft_buffer :: "real list"
  st_power_spectrum :: "real list"
  st_phase_spectrum :: "real list"
  st_magnitude_spectrum :: "real list"
  st_fft_denoiser :: 'd

definition blackman :: "nat \<Rightarrow> nat \<Rightarrow> real" where
  "blackman k N = (let p = real k / real N
                   in 42 / 100 - 5 / 10 * cos (2 * pi * p) + 8 / 100 * cos (4 * pi * p))"

definition hanning :: "nat \<Rightarrow> nat \<Rightarrow> real" where
  "hanning k N = (let p = real k / real N in 5 / 10 - 5 / 10 * cos (2 * pi * p))"

definition hamming :: "nat \<Rightarrow> nat \<Rightarrow> real" where
  "hamming k N = (let p = real k / real N in 54 / 100 - 46 / 100 * cos (2 * pi * p))"

text \<open>The square \<^verbatim>\<open>powf(x, 2.f)\<close> is written as a product.\<close>

definition vorbis :: "nat \<Rightarrow> nat \<Rightarrow> real" where
  "vorbis k N = (let p = real k / real N
                 in sin (pi / 2 * (sin (pi * p) * sin (pi * p))))"

definition fft_window :: "real list \<Rightarrow> nat \<Rightarrow> WindowTypes \<Rightarrow> real list" where
  "fft_window window N window_type =
     fold (\<lambda>k w. w[k := (case window_type of
                            BLACKMAN_WINDOW \<Rightarrow> blackman k N
                          | HANN_WINDOW \<Rightarrow> hanning k N
                          | HAMMING_WINDOW \<Rightarrow> hamming k N
                          | VORBIS_WINDOW \<Rightarrow> vorbis k N)])
       [0..<N] window"





definition stft_processor_get_latency :: "'d STFTProcessor \<Rightarrow> int" where
  "stft_processor_get_latency self = st_input_latency self"










section \<open>Masking estimator\<close>












subsection \<open>src/src/masking\_estimator.c\<close>








subsection \<open>src/subprojects/libnrepel/src/denoiser/masking\_estimator.c\<close>












section \<open>Plugin state (src/src/noise\_repellent\_state.c)\<close>

text \<open>
  An \<^verbatim>\<open>LV2_URID\<close> is a 32-bit word. The sizes in bytes are those of the usual 64-bit
  ABI: \<^verbatim>\<open>int\<close> and \<^verbatim>\<open>float\<close> have 4 bytes, and \<^verbatim>\<open>NoiseProfile\<close> (two words,
  an \<^verbatim>\<open>int\<close>, padding and a pointer) has 24.
\<close>

type_synonym LV2_URID = "32 word"

definition sizeof_int :: nat where
  "sizeof_int = 4"

definition sizeof_float :: nat where
  "sizeof_float = 4"

definition sizeof_NoiseProfile :: nat where
  "sizeof_NoiseProfile = 24"

text \<open>\<open>np_values\<close> is the array that the pointer \<^verbatim>\<open>values\<close> addresses.\<close>

record NoiseProfile =
  child_size :: "32 word"
  child_type :: "32 word"
  noise_profile_size :: int
  np_values :: "real list"

definition noise_profile_initialize :: "LV2_URID \<Rightarrow> int \<Rightarrow> NoiseProfile" where
  "noise_profile_initialize type profile_size =
     \<lparr> child_size = of_nat sizeof_float, child_type = type, noise_profile_size = profile_size,
       np_values = replicate (nat profile_size) 0 \<rparr>"

text \<open>
  \<open>ps_map\<close> is the host's URID map, from URIs to URIDs, or \<open>None\<close> for the null pointer.
\<close>

record PluginState =
  ps_map :: "(string \<Rightarrow> LV2_URID) option"
  atom_Vector :: LV2_URID
  atom_Int :: LV2_URID
  atom_Float :: LV2_URID
  property_fft_size :: LV2_URID
  property_block_count :: LV2_URID
  property_saved_noise_profile :: LV2_URID
  ps_noise_profile :: NoiseProfile

definition LV2_URID__map :: string where
  "LV2_URID__map = ''http://lv2plug.in/ns/ext/urid#map''"

definition LV2_ATOM__Vector :: string where
  "LV2_ATOM__Vector = ''http://lv2plug.in/ns/ext/atom#Vector''"

definition LV2_ATOM__Int :: string where
  "LV2_ATOM__Int = ''http://lv2plug.in/ns/ext/atom#Int''"

definition LV2_ATOM__Float :: string where
  "LV2_ATOM__Float = ''http://lv2plug.in/ns/ext/atom#Float''"

definition NOISEREPELLENT_URI :: string where
  "NOISEREPELLENT_URI = ''https://github.com/lucianodato/noise-repellent''"

text \<open>
  \<^verbatim>\<open>plugin_state_configure\<close>: a feature is its URI with the URID map it carries; the
  last feature with the URI of the map extension wins.
\<close>

definition plugin_state_configure ::
  "PluginState \<Rightarrow> (string \<times> (string \<Rightarrow> LV2_URID)) list \<Rightarrow> int \<Rightarrow> bool \<times> PluginState" where
  "plugin_state_configure self features profile_size =
     (let self = fold (\<lambda>f s. if fst f = LV2_URID__map then s\<lparr>ps_map := Some (snd f)\<rparr> else s)
                   features self
      in case ps_map self of
           None \<Rightarrow> (False, self)
         | Some m \<Rightarrow>
             (let self = self\<lparr>atom_Vector := m LV2_ATOM__Vector\<rparr>;
                  self = self\<lparr>atom_Int := m LV2_ATOM__Int\<rparr>;
                  self = self\<lparr>atom_Float := m LV2_ATOM__Float\<rparr>;
                  self = self\<lparr>property_fft_size := m (NOISEREPELLENT_URI @ ''#fftsize'')\<rparr>;
                  self = self\<lparr>property_block_count := m (NOISEREPELLENT_URI @ ''#blockcount'')\<rparr>;
                  self = self\<lparr>property_saved_noise_profile :=
                           m (NOISEREPELLENT_URI @ ''#savednoiseprofile'')\<rparr>;
                  self = self\<lparr>ps_noise_profile :=
                           noise_profile_initialize (atom_Float self) profile_size\<rparr>
              in (True, self)))"

text \<open>
  What the host keeps for a key: the bytes it was handed, their number and their type.
  The bytes are those of an \<^verbatim>\<open>int\<close>, those of a \<^verbatim>\<open>float\<close>, the first bytes of a
  pointer variable, or those of a \<^verbatim>\<open>NoiseProfile\<close> structure.
\<close>

datatype lv2_value =
  IntValue int
| FloatValue real
| PointerBytes
| ProfileValue NoiseProfile

record lv2_entry =
  entry_value :: lv2_value
  entry_size :: nat
  entry_type :: LV2_URID

type_synonym lv2_state = "LV2_URID \<Rightarrow> lv2_entry option"

definition store :: "lv2_state \<Rightarrow> LV2_URID \<Rightarrow> lv2_value \<Rightarrow> nat \<Rightarrow> LV2_URID \<Rightarrow> lv2_state" where
  "store handle key v n type =
     handle(key \<mapsto> \<lparr> entry_value = v, entry_size = n, entry_type = type \<rparr>)"

definition retrieve :: "lv2_state \<Rightarrow> LV2_URID \<Rightarrow> lv2_entry option" where
  "retrieve handle key = handle key"

text \<open>A \<^verbatim>\<open>memcpy\<close> of \<open>n\<close> bytes between arrays of floats copies the first \<open>n div 4\<close> floats.\<close>

definition memcpy_floats :: "real list \<Rightarrow> real list \<Rightarrow> nat \<Rightarrow> real list" where
  "memcpy_floats dst src n = take (n div sizeof_float) src @ drop (n div sizeof_float) dst"

text \<open>
  \<^verbatim>\<open>plugin_state_savestate\<close>. The second call of \<^verbatim>\<open>store\<close> is handed the address of
  the parameter \<^verbatim>\<open>noise_window_count\<close>, which is itself a pointer. The length of the
  \<^verbatim>\<open>memcpy\<close> is \<^verbatim>\<open>sizeof(self->noise_profile->noise_profile_size)\<close>, the size of an
  \<^verbatim>\<open>int\<close>.
\<close>

definition plugin_state_savestate ::
  "PluginState \<Rightarrow> lv2_state \<Rightarrow> int \<Rightarrow> real \<Rightarrow> real list \<Rightarrow> PluginState \<times> lv2_state" where
  "plugin_state_savestate self handle fft_size noise_window_count profile =
     (let handle = store handle (property_fft_size self) (IntValue fft_size) sizeof_int
                     (atom_Int self);
          handle = store handle (property_block_count self) PointerBytes sizeof_float
                     (atom_Float self);
          self = self\<lparr>ps_noise_profile := (ps_noise_profile self)\<lparr>np_values :=
                   memcpy_floats (np_values (ps_noise_profile self)) profile sizeof_int\<rparr>\<rparr>;
          handle = store handle (property_saved_noise_profile self)
                     (ProfileValue (ps_noise_profile self)) sizeof_NoiseProfile
                     (atom_Vector self)
      in (self, handle))"

text \<open>
  \<^verbatim>\<open>plugin_state_restorestate\<close>. The \<^verbatim>\<open>memcpy\<close> writes \<open>(half_fft_size + 1)\<close> floats
  taken from the body of the stored atom over the \<^verbatim>\<open>NoiseProfile\<close> structure itself;
  \<open>overwritten\<close> stands for the structure that these bytes leave. The parameter
  \<^verbatim>\<open>noise_profile\<close> is never written, and \<^verbatim>\<open>noise_window_count\<close> is passed by value,
  so the assignment to it changes nothing the caller sees. The result is the returned
  flag, the plugin state, and the caller's profile array and frame count after the
  call. Reading a stored value as a type it does not have, and dereferencing the null
  pointer, are the result \<open>None\<close>.
\<close>

definition plugin_state_restorestate ::
  "(lv2_value \<Rightarrow> nat \<Rightarrow> NoiseProfile \<Rightarrow> NoiseProfile) \<Rightarrow> PluginState \<Rightarrow> lv2_state
     \<Rightarrow> real list \<Rightarrow> real \<Rightarrow> int \<Rightarrow> int \<Rightarrow> (bool \<times> PluginState \<times> real list \<times> real) option" where
  "plugin_state_restorestate overwritten self handle profile noise_window_count fft_size
       half_fft_size =
     (case retrieve handle (property_fft_size self) of
        None \<Rightarrow> Some (False, self, profile, noise_window_count)
      | Some fftsize \<Rightarrow>
          if entry_type fftsize \<noteq> atom_Int self
          then Some (False, self, profile, noise_window_count)
          else
            (case entry_value fftsize of
               IntValue stored \<Rightarrow>
                 if stored \<noteq> half_fft_size
                 then Some (False, self, profile, noise_window_count)
                 else
                   (case retrieve handle (property_saved_noise_profile self) of
                      None \<Rightarrow> Some (False, self, profile, noise_window_count)
                    | Some saved \<Rightarrow>
                        if entry_size saved \<noteq> sizeof_NoiseProfile
                        then Some (False, self, profile, noise_window_count)
                        else if entry_type saved \<noteq> atom_Vector self
                        then Some (False, self, profile, noise_window_count)
                        else
                          (let self' = self\<lparr>ps_noise_profile :=
                                 overwritten (entry_value saved)
                                   (nat (half_fft_size + 1) * sizeof_float)
                                   (ps_noise_profile self)\<rparr>
                           in case retrieve handle (property_block_count self') of
                                None \<Rightarrow>
                                  if entry_type saved = atom_Float self' then None
                                  else Some (True, self', profile, noise_window_count)
                              | Some block_count \<Rightarrow>
                                  if entry_type block_count = atom_Float self'
                                  then (case entry_value block_count of
                                          FloatValue c \<Rightarrow>
                                            Some (True, self', profile, noise_window_count)
                                        | PointerBytes \<Rightarrow>
                                            Some (True, self', profile, noise_window_count)
                                        | _ \<Rightarrow> None)
                                  else Some (True, self', profile, noise_window_count)))
             | _ \<Rightarrow> None))"

text \<open>
  A configured plugin state for a profile of three bins, the empty host state, and the
  structure that the raw copy of \<^verbatim>\<open>plugin_state_restorestate\<close> leaves when it is taken
  to be the stored one.
\<close>

definition example_plugin_state :: PluginState where
  "example_plugin_state = \<lparr>
     ps_map = None,
     atom_Vector = 3, atom_Int = 1, atom_Float = 2,
     property_fft_size = 4, property_block_count = 5, property_saved_noise_profile = 6,
     ps_noise_profile = noise_profile_initialize 2 3 \<rparr>"

definition empty_lv2_state :: lv2_state where
  "empty_lv2_state = Map.empty"

definition stored_structure :: "lv2_value \<Rightarrow> nat \<Rightarrow> NoiseProfile \<Rightarrow> NoiseProfile" where
  "stored_structure v n old = (case v of ProfileValue p \<Rightarrow> p | _ \<Rightarrow> old)"

section \<open>The first plugin (src/nrepel.c)\<close>

text \<open>
  The loop of \<^verbatim>\<open>run\<close> under the comment ``Reassemble complex spectrum'': it writes the
  bins 0 to \<^verbatim>\<open>output_size\<close> of the complex FFT buffer, real part at index 0 and
  imaginary part at index 1 of each \<^verbatim>\<open>fftwf_complex\<close>.
\<close>

definition run_reassemble_complex_spectrum ::
  "real list \<Rightarrow> real list \<Rightarrow> nat \<Rightarrow> complex list \<Rightarrow> complex list" where
  "run_reassemble_complex_spectrum magnitude phase output_size output_fft_buffer =
     fold (\<lambda>k b. let re_part = magnitude ! k * cos (phase ! k);
                      im_part = magnitude ! k * cos (phase ! k)
                  in b[k := Complex re_part im_part])
       [0..<Suc output_size] output_fft_buffer"

section \<open>Properties of the spectral processor\<close>

subsection \<open>Loops that write one bin per iteration\<close>

lemma length_fold_update:
  "length (fold (\<lambda>k p. p[k := f k p]) ks xs) = length xs"
  by (induction ks arbitrary: xs) simp_all

lemma nth_fold_update_other:
  "i \<notin> set ks \<Longrightarrow> fold (\<lambda>k p. p[k := f k p]) ks xs ! i = xs ! i"
  by (induction ks arbitrary: xs) auto

lemma nth_fold_update_bound:
  assumes "i \<in> set ks" and "i < length xs" and "\<And>j m. c \<le> g j m"
  shows "c \<le> fold (\<lambda>k m. m[k := g k m]) ks xs ! i"
  using assms(1,2)
proof (induction ks arbitrary: xs)
  case Nil
  then show ?case by simp
next
  case (Cons a ks)
  show ?case
  proof (cases "i \<in> set ks")
    case True
    with Cons show ?thesis by simp
  next
    case False
    with Cons.prems have "a = i" by simp
    with False Cons.prems assms(3) show ?thesis
      by (simp add: nth_fold_update_other)
  qed
qed

lemma is_empty_loop_all:
  "is_empty_loop spectrum ks = (\<forall>k \<in> set ks. spectrum ! k \<le> FLT_MIN)"
  by (induction ks) auto

subsection \<open>What each stage of the processor leaves alone\<close>

lemma whitening_floor:
  assumes "length (residual_max_spectrum (whiten_spectrum self)) = sp_half_fft_size self + 1"
    and "1 \<le> k" and "k \<le> sp_half_fft_size self"
  shows "WHITENING_FLOOR \<le>
    residual_max_spectrum (whiten_spectrum (residual_spectrum_whitening self factor)) ! k"
proof -
  have mem: "k \<in> set [1..<Suc (sp_half_fft_size self)]" using assms by auto
  have len: "k < length (residual_max_spectrum (whiten_spectrum self))" using assms by simp
  have "WHITENING_FLOOR \<le>
    fold (\<lambda>k m. m[k :=
        (if 1 < unat (whitening_window_count (whiten_spectrum self) + 1)
         then fmaxf (fmaxf (residual_spectrum (denoise_builder self) ! k) WHITENING_FLOOR)
                (m ! k * max_decay_rate (whiten_spectrum self))
         else fmaxf (residual_spectrum (denoise_builder self) ! k) WHITENING_FLOOR)])
      [1..<Suc (sp_half_fft_size self)] (residual_max_spectrum (whiten_spectrum self)) ! k"
    by (rule nth_fold_update_bound[OF mem len]) (simp add: fmaxf_def le_max_iff_disj)
  then show ?thesis
    unfolding residual_spectrum_whitening_def Let_def by simp
qed

lemma whitening_fields:
  "sp_half_fft_size (residual_spectrum_whitening self factor) = sp_half_fft_size self"
  "processed_fft_spectrum (residual_spectrum_whitening self factor) = processed_fft_spectrum self"
  "length (residual_max_spectrum (whiten_spectrum (residual_spectrum_whitening self factor)))
     = length (residual_max_spectrum (whiten_spectrum self))"
  "crossfade_spectrum (residual_spectrum_whitening self factor) = crossfade_spectrum self"
  "noise_profile (residual_spectrum_whitening self factor) = noise_profile self"
  unfolding residual_spectrum_whitening_def Let_def
  by (simp_all add: length_fold_update del: upt_Suc)

lemma whitening_dc:
  "residual_max_spectrum (whiten_spectrum (residual_spectrum_whitening self factor)) ! 0
     = residual_max_spectrum (whiten_spectrum self) ! 0"
  unfolding residual_spectrum_whitening_def Let_def
  by (simp add: nth_fold_update_other del: upt_Suc)

lemma whitening_count:
  "whitening_window_count (whiten_spectrum (residual_spectrum_whitening self factor))
     = whitening_window_count (whiten_spectrum self) + 1"
  unfolding residual_spectrum_whitening_def Let_def by simp

lemma update_wetdry_fields:
  "sp_half_fft_size (fft_denoiser_update_wetdry_target self en) = sp_half_fft_size self"
  "sp_fft_size (fft_denoiser_update_wetdry_target self en) = sp_fft_size self"
  "processed_fft_spectrum (fft_denoiser_update_wetdry_target self en) = processed_fft_spectrum self"
  "fft_spectrum (fft_denoiser_update_wetdry_target self en) = fft_spectrum self"
  "whiten_spectrum (fft_denoiser_update_wetdry_target self en) = whiten_spectrum self"
  "denoise_builder (fft_denoiser_update_wetdry_target self en) = denoise_builder self"
  "processing_spectrums (fft_denoiser_update_wetdry_target self en) = processing_spectrums self"
  "gain_estimation (fft_denoiser_update_wetdry_target self en) = gain_estimation self"
  "noise_estimation (fft_denoiser_update_wetdry_target self en) = noise_estimation self"
  "noise_profile (fft_denoiser_update_wetdry_target self en) = noise_profile self"
  "denoise_parameters (fft_denoiser_update_wetdry_target self en) = denoise_parameters self"
  "tau (crossfade_spectrum (fft_denoiser_update_wetdry_target self en)) = tau (crossfade_spectrum self)"
  unfolding fft_denoiser_update_wetdry_target_def Let_def by simp_all

lemma soft_bypass_fields:
  "sp_half_fft_size (fft_denoiser_soft_bypass self) = sp_half_fft_size self"
  "sp_fft_size (fft_denoiser_soft_bypass self) = sp_fft_size self"
  "length (processed_fft_spectrum (fft_denoiser_soft_bypass self)) = length (processed_fft_spectrum self)"
  "processed_fft_spectrum (fft_denoiser_soft_bypass self) ! 0 = processed_fft_spectrum self ! 0"
  "fft_spectrum (fft_denoiser_soft_bypass self) = fft_spectrum self"
  "crossfade_spectrum (fft_denoiser_soft_bypass self) = crossfade_spectrum self"
  "whiten_spectrum (fft_denoiser_soft_bypass self) = whiten_spectrum self"
  "denoise_builder (fft_denoiser_soft_bypass self) = denoise_builder self"
  "processing_spectrums (fft_denoiser_soft_bypass self) = processing_spectrums self"
  "gain_estimation (fft_denoiser_soft_bypass self) = gain_estimation self"
  "noise_estimation (fft_denoiser_soft_bypass self) = noise_estimation self"
  "noise_profile (fft_denoiser_soft_bypass self) = noise_profile self"
  "denoise_parameters (fft_denoiser_soft_bypass self) = denoise_parameters self"
  unfolding fft_denoiser_soft_bypass_def
  by (simp_all add: length_fold_update nth_fold_update_other)

lemma get_denoised_fields:
  "sp_half_fft_size (get_denoised_spectrum self) = sp_half_fft_size self"
  "sp_fft_size (get_denoised_spectrum self) = sp_fft_size self"
  "processed_fft_spectrum (get_denoised_spectrum self) = processed_fft_spectrum self"
  "fft_spectrum (get_denoised_spectrum self) = fft_spectrum self"
  "crossfade_spectrum (get_denoised_spectrum self) = crossfade_spectrum self"
  "whiten_spectrum (get_denoised_spectrum self) = whiten_spectrum self"
  "noise_profile (get_denoised_spectrum self) = noise_profile self"
  "denoise_parameters (get_denoised_spectrum self) = denoise_parameters self"
  unfolding get_denoised_spectrum_def by simp_all

lemma whitening_fields2:
  "sp_fft_size (residual_spectrum_whitening self factor) = sp_fft_size self"
  "fft_spectrum (residual_spectrum_whitening self factor) = fft_spectrum self"
  "denoise_parameters (residual_spectrum_whitening self factor) = denoise_parameters self"
  unfolding residual_spectrum_whitening_def Let_def by simp_all

lemma get_residual_fields:
  "sp_half_fft_size (get_residual_spectrum self factor) = sp_half_fft_size self"
  "sp_fft_size (get_residual_spectrum self factor) = sp_fft_size self"
  "processed_fft_spectrum (get_residual_spectrum self factor) = processed_fft_spectrum self"
  "fft_spectrum (get_residual_spectrum self factor) = fft_spectrum self"
  "crossfade_spectrum (get_residual_spectrum self factor) = crossfade_spectrum self"
  "noise_profile (get_residual_spectrum self factor) = noise_profile self"
  "denoise_parameters (get_residual_spectrum self factor) = denoise_parameters self"
  "length (residual_max_spectrum (whiten_spectrum (get_residual_spectrum self factor)))
     = length (residual_max_spectrum (whiten_spectrum self))"
  "residual_max_spectrum (whiten_spectrum (get_residual_spectrum self factor)) ! 0
     = residual_max_spectrum (whiten_spectrum self) ! 0"
  unfolding get_residual_spectrum_def Let_def
  by (simp_all add: whitening_fields whitening_fields2 whitening_dc)

lemma get_final_fields:
  "sp_half_fft_size (get_final_spectrum self listen amount) = sp_half_fft_size self"
  "sp_fft_size (get_final_spectrum self listen amount) = sp_fft_size self"
  "length (processed_fft_spectrum (get_final_spectrum self listen amount))
     = length (processed_fft_spectrum self)"
  "processed_fft_spectrum (get_final_spectrum self listen amount) ! 0
     = processed_fft_spectrum self ! 0"
  "fft_spectrum (get_final_spectrum self listen amount) = fft_spectrum self"
  "crossfade_spectrum (get_final_spectrum self listen amount) = crossfade_spectrum self"
  "whiten_spectrum (get_final_spectrum self listen amount) = whiten_spectrum self"
  "noise_profile (get_final_spectrum self listen amount) = noise_profile self"
  "denoise_parameters (get_final_spectrum self listen amount) = denoise_parameters self"
  unfolding get_final_spectrum_def
  by (simp_all add: length_fold_update nth_fold_update_other)

lemmas sp_fields = update_wetdry_fields soft_bypass_fields get_denoised_fields
  whitening_fields whitening_fields2 get_residual_fields get_final_fields

lemma frame_received_fields:
  "sp_half_fft_size (frame_received ext self p buffer) = sp_half_fft_size self"
  "sp_fft_size (frame_received ext self p buffer) = sp_fft_size self"
  "processed_fft_spectrum (frame_received ext self p buffer) = processed_fft_spectrum self"
  "whiten_spectrum (frame_received ext self p buffer) = whiten_spectrum self"
  "denoise_builder (frame_received ext self p buffer) = denoise_builder self"
  "gain_estimation (frame_received ext self p buffer) = gain_estimation self"
  "noise_estimation (frame_received ext self p buffer) = noise_estimation self"
  "noise_profile (frame_received ext self p buffer) = noise_profile self"
  "denoise_parameters (frame_received ext self p buffer) = denoise_parameters self"
  "tau (crossfade_spectrum (frame_received ext self p buffer)) = tau (crossfade_spectrum self)"
  "crossfade_spectrum (frame_received ext self p buffer)
     = crossfade_spectrum (fft_denoiser_update_wetdry_target self (enable p))"
  "fft_spectrum (frame_received ext self p buffer)
     = take (sp_fft_size self) buffer @ drop (sp_fft_size self) (fft_spectrum self)"
  "power_spectrum (processing_spectrums (frame_received ext self p buffer))
     = get_fft_power_spectrum ext
         (take (sp_fft_size self) buffer @ drop (sp_fft_size self) (fft_spectrum self))
         (sp_fft_size self) (power_spectrum (processing_spectrums self)) (sp_half_fft_size self)"
  unfolding frame_received_def by (simp_all add: update_wetdry_fields)

lemma frame_denoised_fields:
  "sp_half_fft_size (frame_denoised ext self p ns) = sp_half_fft_size self"
  "sp_fft_size (frame_denoised ext self p ns) = sp_fft_size self"
  "length (processed_fft_spectrum (frame_denoised ext self p ns))
     = length (processed_fft_spectrum self)"
  "processed_fft_spectrum (frame_denoised ext self p ns) ! 0 = processed_fft_spectrum self ! 0"
  "length (residual_max_spectrum (whiten_spectrum (frame_denoised ext self p ns)))
     = length (residual_max_spectrum (whiten_spectrum self))"
  "residual_max_spectrum (whiten_spectrum (frame_denoised ext self p ns)) ! 0
     = residual_max_spectrum (whiten_spectrum self) ! 0"
  "fft_spectrum (frame_denoised ext self p ns) = fft_spectrum self"
  "crossfade_spectrum (frame_denoised ext self p ns) = crossfade_spectrum self"
  "noise_profile (frame_denoised ext self p ns) = noise_profile self"
  "denoise_parameters (frame_denoised ext self p ns) = denoise_parameters self"
  unfolding frame_denoised_def
  by (simp_all add: get_final_fields get_residual_fields get_denoised_fields)

lemma frame_processed_fields:
  "sp_half_fft_size (frame_processed ext self p ns) = sp_half_fft_size self"
  "sp_fft_size (frame_processed ext self p ns) = sp_fft_size self"
  "length (processed_fft_spectrum (frame_processed ext self p ns))
     = length (processed_fft_spectrum self)"
  "processed_fft_spectrum (frame_processed ext self p ns) ! 0 = processed_fft_spectrum self ! 0"
  "length (residual_max_spectrum (whiten_spectrum (frame_processed ext self p ns)))
     = length (residual_max_spectrum (whiten_spectrum self))"
  "residual_max_spectrum (whiten_spectrum (frame_processed ext self p ns)) ! 0
     = residual_max_spectrum (whiten_spectrum self) ! 0"
  "fft_spectrum (frame_processed ext self p ns) = fft_spectrum self"
  "crossfade_spectrum (frame_processed ext self p ns) = crossfade_spectrum self"
  "noise_profile self \<noteq> None \<Longrightarrow> noise_profile (frame_processed ext self p ns) \<noteq> None"
  "denoise_parameters (frame_processed ext self p ns) = denoise_parameters self"
  unfolding frame_processed_def
  by (simp_all add: frame_denoised_fields)

lemma spectral_processor_run_eq:
  assumes "denoise_parameters self = Some p" and "noise_profile self = Some ns"
  shows "spectral_processor_run ext self buffer =
    Some (fft_denoiser_soft_bypass (frame_processed ext (frame_received ext self p buffer) p ns),
          copy_processed_out ext buffer
            (processed_fft_spectrum
               (fft_denoiser_soft_bypass (frame_processed ext (frame_received ext self p buffer) p ns)))
            (sp_half_fft_size self))"
  unfolding spectral_processor_run_def frame_processed_def frame_denoised_def
    frame_received_def Let_def
  by (simp add: assms update_wetdry_fields soft_bypass_fields get_final_fields
      get_residual_fields get_denoised_fields)

lemma spectral_processor_run_None:
  "spectral_processor_run ext self buffer = None
     \<longleftrightarrow> denoise_parameters self = None \<or> noise_profile self = None"
proof (cases "denoise_parameters self")
  case None
  then show ?thesis unfolding spectral_processor_run_def by simp
next
  case (Some p)
  show ?thesis
  proof (cases "noise_profile self")
    case None
    with Some show ?thesis unfolding spectral_processor_run_def by simp
  next
    case (Some ns)
    with \<open>denoise_parameters self = Some p\<close> show ?thesis
      using spectral_processor_run_eq[of self p ns ext buffer] by simp
  qed
qed

lemma run_fields:
  assumes "spectral_processor_run ext self buffer = Some (self', out)"
  shows "sp_half_fft_size self' = sp_half_fft_size self"
    and "sp_fft_size self' = sp_fft_size self"
    and "length (processed_fft_spectrum self') = length (processed_fft_spectrum self)"
    and "processed_fft_spectrum self' ! 0 = processed_fft_spectrum self ! 0"
    and "length (residual_max_spectrum (whiten_spectrum self'))
           = length (residual_max_spectrum (whiten_spectrum self))"
    and "residual_max_spectrum (whiten_spectrum self') ! 0
           = residual_max_spectrum (whiten_spectrum self) ! 0"
    and "tau (crossfade_spectrum self') = tau (crossfade_spectrum self)"
    and "noise_profile self' \<noteq> None"
    and "denoise_parameters self' = denoise_parameters self"
    and "out = copy_processed_out ext buffer (processed_fft_spectrum self') (sp_half_fft_size self')"
proof -
  from assms obtain p ns where some: "denoise_parameters self = Some p" "noise_profile self = Some ns"
    using spectral_processor_run_None[of ext self buffer] by (cases "denoise_parameters self"; cases "noise_profile self") auto
  have eq: "self' = fft_denoiser_soft_bypass (frame_processed ext (frame_received ext self p buffer) p ns)"
    and eq2: "out = copy_processed_out ext buffer (processed_fft_spectrum self') (sp_half_fft_size self)"
    using assms unfolding spectral_processor_run_eq[OF some] by auto
  note f = soft_bypass_fields frame_processed_fields frame_received_fields
  show "sp_half_fft_size self' = sp_half_fft_size self" by (simp add: eq f)
  then show "out = copy_processed_out ext buffer (processed_fft_spectrum self') (sp_half_fft_size self')"
    using eq2 by simp
  show "sp_fft_size self' = sp_fft_size self" by (simp add: eq f)
  show "length (processed_fft_spectrum self') = length (processed_fft_spectrum self)"
    by (simp add: eq f)
  show "processed_fft_spectrum self' ! 0 = processed_fft_spectrum self ! 0" by (simp add: eq f)
  show "length (residual_max_spectrum (whiten_spectrum self'))
           = length (residual_max_spectrum (whiten_spectrum self))" by (simp add: eq f)
  show "residual_max_spectrum (whiten_spectrum self') ! 0
           = residual_max_spectrum (whiten_spectrum self) ! 0" by (simp add: eq f)
  show "tau (crossfade_spectrum self') = tau (crossfade_spectrum self)"
    by (simp add: eq f update_wetdry_fields)
  show "noise_profile self' \<noteq> None" using some by (simp add: eq f)
  show "denoise_parameters self' = denoise_parameters self" by (simp add: eq f)
qed

lemma initialize_fields:
  assumes "spectral_processor_initialize ext sample_rate fft_size overlap_factor = Some s"
  shows "sp_half_fft_size s = fft_size div 2"
    and "processed_fft_spectrum s = replicate (fft_size div 2 + 1) 0"
    and "residual_max_spectrum (whiten_spectrum s) = replicate (fft_size div 2 + 1) 0"
    and "whitening_window_count (whiten_spectrum s) = 0"
    and "wet_dry (crossfade_spectrum s) = 0"
    and "tau (crossfade_spectrum s) = 1 - exp (- 2 * pi * 25 * 64 / real sample_rate)"
  using assms unfolding spectral_processor_initialize_def Let_def
  by (auto split: if_splits)

lemma get_residual_whitening_inv:
  assumes len: "length (residual_max_spectrum (whiten_spectrum self)) = sp_half_fft_size self + 1"
    and inv: "whitening_window_count (whiten_spectrum self) \<noteq> 0 \<longrightarrow>
              (\<forall>k. 1 \<le> k \<and> k \<le> sp_half_fft_size self \<longrightarrow>
                 WHITENING_FLOOR \<le> residual_max_spectrum (whiten_spectrum self) ! k)"
  shows "whitening_window_count (whiten_spectrum (get_residual_spectrum self factor)) \<noteq> 0 \<longrightarrow>
              (\<forall>k. 1 \<le> k \<and> k \<le> sp_half_fft_size self \<longrightarrow>
                 WHITENING_FLOOR
                   \<le> residual_max_spectrum (whiten_spectrum (get_residual_spectrum self factor)) ! k)"
proof (cases "factor > 0")
  case True
  define t where "t = self\<lparr>denoise_builder := (denoise_builder self)\<lparr>residual_spectrum :=
              fold (\<lambda>k r. r[k := fft_spectrum self ! k
                                   - denoised_spectrum (denoise_builder self) ! k])
                [1..<Suc (sp_half_fft_size self)]
                (residual_spectrum (denoise_builder self))\<rparr>\<rparr>"
  have eq: "get_residual_spectrum self factor = residual_spectrum_whitening t factor"
    using True unfolding get_residual_spectrum_def Let_def t_def by simp
  have t: "length (residual_max_spectrum (whiten_spectrum t)) = sp_half_fft_size t + 1"
    "sp_half_fft_size t = sp_half_fft_size self"
    using len unfolding t_def by simp_all
  show ?thesis
    unfolding eq using whitening_floor[OF t(1)] t(2) by simp
next
  case False
  then have "whiten_spectrum (get_residual_spectrum self factor) = whiten_spectrum self"
    unfolding get_residual_spectrum_def Let_def by simp
  with inv show ?thesis by simp
qed

lemma run_whitening_inv:
  assumes run: "spectral_processor_run ext self buffer = Some (self', out)"
    and len: "length (residual_max_spectrum (whiten_spectrum self)) = sp_half_fft_size self + 1"
    and inv: "whitening_window_count (whiten_spectrum self) \<noteq> 0 \<longrightarrow>
              (\<forall>k. 1 \<le> k \<and> k \<le> sp_half_fft_size self \<longrightarrow>
                 WHITENING_FLOOR \<le> residual_max_spectrum (whiten_spectrum self) ! k)"
  shows "whitening_window_count (whiten_spectrum self') \<noteq> 0 \<longrightarrow>
              (\<forall>k. 1 \<le> k \<and> k \<le> sp_half_fft_size self \<longrightarrow>
                 WHITENING_FLOOR \<le> residual_max_spectrum (whiten_spectrum self') ! k)"
proof -
  define Inv where "Inv ws \<longleftrightarrow> (whitening_window_count ws \<noteq> 0 \<longrightarrow>
              (\<forall>k. 1 \<le> k \<and> k \<le> sp_half_fft_size self \<longrightarrow>
                 WHITENING_FLOOR \<le> residual_max_spectrum ws ! k))" for ws :: Whitening
  have base: "Inv (whiten_spectrum self)" using inv unfolding Inv_def .
  have key: "Inv (whiten_spectrum (get_residual_spectrum t f))"
    if "whiten_spectrum t = whiten_spectrum self" "sp_half_fft_size t = sp_half_fft_size self"
    for t :: "('a, 'b) SpectralProcessor" and f
    using get_residual_whitening_inv[of t f] len inv that unfolding Inv_def by simp
  from run obtain p ns where some: "denoise_parameters self = Some p" "noise_profile self = Some ns"
    using spectral_processor_run_None[of ext self buffer]
    by (cases "denoise_parameters self"; cases "noise_profile self") auto
  have eq: "self' = fft_denoiser_soft_bypass (frame_processed ext (frame_received ext self p buffer) p ns)"
    using run unfolding spectral_processor_run_eq[OF some] by auto
  have "Inv (whiten_spectrum self')"
    unfolding eq frame_processed_def frame_denoised_def
    using base
    by (simp add: soft_bypass_fields get_final_fields get_denoised_fields frame_received_fields key)
  then show ?thesis unfolding Inv_def .
qed

subsection \<open>Sequences of frames\<close>

lemma frames_invariant:
  assumes "spectral_processor_frames ext self fs = Some (s, outs)"
    and "P self"
    and "\<And>t p buffer t' out. P t \<Longrightarrow>
           spectral_processor_run ext (load_processor_parameters t p) buffer = Some (t', out)
           \<Longrightarrow> P t'"
  shows "P s"
  using assms(1,2)
proof (induction fs arbitrary: self outs)
  case Nil
  then show ?case by simp
next
  case (Cons f fs)
  obtain p buffer where f: "f = (p, buffer)" by (cases f)
  from Cons.prems(1) obtain t' out outs' where
    run: "spectral_processor_run ext (load_processor_parameters self p) buffer = Some (t', out)"
    and rest: "spectral_processor_frames ext t' fs = Some (s, outs')"
    unfolding f by (auto split: option.splits)
  from assms(3)[OF Cons.prems(2) run] have "P t'" .
  from Cons.IH[OF rest this] show ?case .
qed

lemma frames_outputs:
  assumes "spectral_processor_frames ext self fs = Some (s, outs)"
    and "P self"
    and "\<And>t p buffer t' out. P t \<Longrightarrow>
           spectral_processor_run ext (load_processor_parameters t p) buffer = Some (t', out)
           \<Longrightarrow> P t' \<and> Q out"
  shows "\<forall>out \<in> set outs. Q out"
  using assms(1,2)
proof (induction fs arbitrary: self outs)
  case Nil
  then show ?case by simp
next
  case (Cons f fs)
  obtain p buffer where f: "f = (p, buffer)" by (cases f)
  from Cons.prems(1) obtain t' out outs' where
    run: "spectral_processor_run ext (load_processor_parameters self p) buffer = Some (t', out)"
    and rest: "spectral_processor_frames ext t' fs = Some (s, outs')"
    and outs: "outs = out # outs'"
    unfolding f by (auto split: option.splits)
  from assms(3)[OF Cons.prems(2) run] have "P t'" "Q out" by simp_all
  from Cons.IH[OF rest this(1)] \<open>Q out\<close> outs show ?case by simp
qed

lemma frames_total:
  assumes "noise_profile self \<noteq> None"
  shows "\<exists>s outs. spectral_processor_frames ext self fs = Some (s, outs) \<and> length outs = length fs"
  using assms
proof (induction fs arbitrary: self)
  case Nil
  then show ?case by simp
next
  case (Cons f fs)
  obtain p buffer where f: "f = (p, buffer)" by (cases f)
  have "spectral_processor_run ext (load_processor_parameters self p) buffer \<noteq> None"
    using Cons.prems by (simp add: spectral_processor_run_None load_processor_parameters_def)
  then obtain t' out where
    run: "spectral_processor_run ext (load_processor_parameters self p) buffer = Some (t', out)"
    by auto
  from run_fields(8)[OF run] Cons.IH[of t'] obtain s outs where
    "spectral_processor_frames ext t' fs = Some (s, outs)" "length outs = length fs" by blast
  with run show ?case unfolding f by simp
qed

lemma tau_range_initialize:
  assumes "spectral_processor_initialize ext sample_rate fft_size overlap_factor = Some s0"
  shows "0 \<le> tau (crossfade_spectrum s0) \<and> tau (crossfade_spectrum s0) \<le> 1"
proof -
  have "- 2 * pi * 25 * 64 / real sample_rate \<le> 0"
    by (simp add: divide_nonpos_nonneg)
  then have "exp (- 2 * pi * 25 * 64 / real sample_rate) \<le> 1" by simp
  moreover have "0 \<le> exp (- 2 * pi * 25 * 64 / real sample_rate)" by simp
  ultimately show ?thesis
    unfolding initialize_fields(6)[OF assms] by simp
qed

lemma tau_range_reachable:
  assumes init: "spectral_processor_initialize ext sample_rate fft_size overlap_factor = Some s0"
    and frames: "spectral_processor_frames ext (load_noise_profile s0 profile) fs = Some (self, outs)"
  shows "0 \<le> tau (crossfade_spectrum self) \<and> tau (crossfade_spectrum self) \<le> 1"
proof (rule frames_invariant[OF frames, where P = "\<lambda>t. 0 \<le> tau (crossfade_spectrum t) \<and> tau (crossfade_spectrum t) \<le> 1"])
  show "0 \<le> tau (crossfade_spectrum (load_noise_profile s0 profile))
      \<and> tau (crossfade_spectrum (load_noise_profile s0 profile)) \<le> 1"
    using tau_range_initialize[OF init] by (simp add: load_noise_profile_def)
next
  fix t :: "('a, 'b) SpectralProcessor" and p buffer t' out
  assume "0 \<le> tau (crossfade_spectrum t) \<and> tau (crossfade_spectrum t) \<le> 1"
    and "spectral_processor_run ext (load_processor_parameters t p) buffer = Some (t', out)"
  then show "0 \<le> tau (crossfade_spectrum t') \<and> tau (crossfade_spectrum t') \<le> 1"
    using run_fields(7)[of ext "load_processor_parameters t p" buffer t' out]
    by (simp add: load_processor_parameters_def)
qed

subsection \<open>The crossfade level\<close>

lemma wet_dry_step:
  fixes a w t :: real
  assumes "0 \<le> a" and "a \<le> 1"
  shows "(w \<le> t \<longrightarrow> w \<le> w + (a * (t - w) + FLT_MIN) \<and> w + (a * (t - w) + FLT_MIN) \<le> t + FLT_MIN)
       \<and> (t \<le> w \<longrightarrow> t \<le> w + (a * (t - w) + FLT_MIN) \<and> w + (a * (t - w) + FLT_MIN) \<le> w + FLT_MIN)"
proof -
  have pos: "0 < FLT_MIN" by (simp add: FLT_MIN_def)
  have up: "w \<le> w + (a * (t - w) + FLT_MIN) \<and> w + (a * (t - w) + FLT_MIN) \<le> t + FLT_MIN"
    if h: "w \<le> t"
  proof -
    have 1: "0 \<le> a * (t - w)" using h assms by simp
    have 2: "a * (t - w) \<le> 1 * (t - w)" using h assms by (intro mult_right_mono) simp_all
    from 1 2 pos show ?thesis by simp
  qed
  have down: "t \<le> w + (a * (t - w) + FLT_MIN) \<and> w + (a * (t - w) + FLT_MIN) \<le> w + FLT_MIN"
    if h: "t \<le> w"
  proof -
    have 1: "a * (t - w) \<le> 0" using h assms by (simp add: mult_nonneg_nonpos)
    have 2: "1 * (t - w) \<le> a * (t - w)" using h assms by (intro mult_right_mono_neg) simp_all
    from 1 2 pos show ?thesis by simp
  qed
  from up down show ?thesis by blast
qed

text \<open>
  Claim C3, as the code has it. In every state the processor reaches from its constructor
  by any sequence of frames, and for either value of \<open>enable\<close>, the update sets the target
  to 1 or 0 and moves \<open>wet_dry\<close> towards it, but the constant \<open>FLT_MIN\<close> that is added on
  every frame lets the new value end up to \<open>FLT_MIN\<close> on the far side: coming from below
  the new value lies between the old value and \<open>target + FLT_MIN\<close>; coming from above it
  lies between the target and \<open>old + FLT_MIN\<close>.
\<close>

theorem wet_dry_approaches_target_within_FLT_MIN:
  assumes "spectral_processor_initialize ext sample_rate fft_size overlap_factor = Some s0"
    and "spectral_processor_frames ext (load_noise_profile s0 profile) fs = Some (self, outs)"
  shows "wet_dry_target (crossfade_spectrum (fft_denoiser_update_wetdry_target self en))
           = (if en then 1 else 0)
       \<and> (wet_dry (crossfade_spectrum self) \<le> (if en then 1 else 0) \<longrightarrow>
            wet_dry (crossfade_spectrum self)
              \<le> wet_dry (crossfade_spectrum (fft_denoiser_update_wetdry_target self en))
          \<and> wet_dry (crossfade_spectrum (fft_denoiser_update_wetdry_target self en))
              \<le> (if en then 1 else 0) + FLT_MIN)
       \<and> ((if en then 1 else 0) \<le> wet_dry (crossfade_spectrum self) \<longrightarrow>
            (if en then 1 else 0)
              \<le> wet_dry (crossfade_spectrum (fft_denoiser_update_wetdry_target self en))
          \<and> wet_dry (crossfade_spectrum (fft_denoiser_update_wetdry_target self en))
              \<le> wet_dry (crossfade_spectrum self) + FLT_MIN)"
proof -
  from tau_range_reachable[OF assms]
  have t: "0 \<le> tau (crossfade_spectrum self)" "tau (crossfade_spectrum self) \<le> 1" by simp_all
  show ?thesis
    using wet_dry_step[OF t, of "wet_dry (crossfade_spectrum self)" 1]
      wet_dry_step[OF t, of "wet_dry (crossfade_spectrum self)" 0]
    by (simp add: fft_denoiser_update_wetdry_target_def Let_def)
qed

theorem wet_dry_approaches_target_within_FLT_MIN_witness:
  "wet_dry (crossfade_spectrum example_processor) = 0
   \<and> 0 \<le> wet_dry (crossfade_spectrum (fft_denoiser_update_wetdry_target example_processor True))
   \<and> wet_dry (crossfade_spectrum (fft_denoiser_update_wetdry_target example_processor True))
       \<le> 1 + FLT_MIN"
proof -
  have init: "spectral_processor_initialize stub_externals 48000 4 2
      = Some (the (spectral_processor_initialize stub_externals 48000 4 2))"
    by (simp add: spectral_processor_initialize_def)
  have fs: "spectral_processor_frames stub_externals
      (load_noise_profile (the (spectral_processor_initialize stub_externals 48000 4 2)) [0, 0, 0]) []
      = Some (example_processor, [])"
    by (simp add: example_processor_def)
  have w: "wet_dry (crossfade_spectrum example_processor) = 0"
    by (simp add: example_processor_def spectral_processor_initialize_def load_noise_profile_def)
  from wet_dry_approaches_target_within_FLT_MIN[OF init fs, of True] w
  show ?thesis by simp
qed

text \<open>
  The claim as the specification words it fails on the very first frame of a bypassed
  processor: \<open>wet_dry\<close> starts at its target 0 and the update moves it to \<open>FLT_MIN\<close>,
  beyond the target.
\<close>

theorem wet_dry_passes_target_counterexample:
  "\<not> (wet_dry (crossfade_spectrum example_processor) \<le> 0 \<longrightarrow>
        wet_dry (crossfade_spectrum example_processor)
          \<le> wet_dry (crossfade_spectrum (fft_denoiser_update_wetdry_target example_processor False))
      \<and> wet_dry (crossfade_spectrum (fft_denoiser_update_wetdry_target example_processor False))
          \<le> 0)"
  by (simp add: example_processor_def spectral_processor_initialize_def load_noise_profile_def
      fft_denoiser_update_wetdry_target_def Let_def FLT_MIN_def)

subsection \<open>Evaluating the example\<close>

lemma upt_small: "[Suc 0..<3] = [1, 2]" "[0..<3] = [0, 1, 2]" "[1..<3] = [1, 2]"
  "[Suc 0..<2] = [1]"
  by (simp_all add: upt_rec)

lemma replicate_small: "replicate 2 x = [x, x]" "replicate 3 x = [x, x, x]"
  "replicate 4 x = [x, x, x, x]"
  by (simp_all add: eval_nat_numeral)

lemmas sp_eval = stub_externals_def halfcomplex_power_def
     spectral_processor_initialize_def load_noise_profile_def load_processor_parameters_def
     Let_def fft_denoiser_update_wetdry_target_def is_empty_def
     fft_denoiser_soft_bypass_def get_denoised_spectrum_def get_residual_spectrum_def
     residual_spectrum_whitening_def get_final_spectrum_def copy_processed_out_def FLT_MIN_def
     frame_received_def frame_processed_def frame_denoised_def fmaxf_def WHITENING_FLOOR_def
     upt_small replicate_small example_processor_def example_parameters_def

lemma example_frames_run:
  "\<exists>s outs. spectral_processor_frames stub_externals example_processor example_frames = Some (s, outs)
     \<and> whitening_window_count (whiten_spectrum s) = 1
     \<and> residual_max_spectrum (whiten_spectrum s) = [0, 1 / 2, 2 / 100]"
  unfolding example_frames_def
  apply (simp add: spectral_processor_run_eq[where p = "example_parameters\<lparr>learn_noise := True\<rparr>" and ns = "[0,0,0]"]
     load_processor_parameters_def load_noise_profile_def example_processor_def)
  apply (simp add: spectral_processor_run_eq[where p = "example_parameters" and ns = "[0,1,0]"] sp_eval)
  done

subsection \<open>An empty spectrum\<close>

text \<open>
  Claim C5. When every bin of the power spectrum of the frame is at most \<open>FLT_MIN\<close>,
  \<^verbatim>\<open>spectral_processor_run\<close> returns, and it has run neither the noise estimator nor
  the gain estimator nor the denoising stages: the noise profile, both estimators, the
  gain, denoised and residual spectra and the whitening state are what they were, and
  the processor is the one the soft bypass produces from the frame as it was received.
\<close>

theorem empty_spectrum_skips_pipeline:
  assumes "denoise_parameters self = Some p" and "noise_profile self = Some ns"
    and "\<forall>k \<le> sp_half_fft_size self.
           get_fft_power_spectrum ext
             (take (sp_fft_size self) buffer @ drop (sp_fft_size self) (fft_spectrum self))
             (sp_fft_size self) (power_spectrum (processing_spectrums self))
             (sp_half_fft_size self) ! k \<le> FLT_MIN"
  shows "\<exists>self' out. spectral_processor_run ext self buffer = Some (self', out)
     \<and> noise_profile self' = noise_profile self
     \<and> noise_estimation self' = noise_estimation self
     \<and> gain_estimation self' = gain_estimation self
     \<and> denoise_builder self' = denoise_builder self
     \<and> whiten_spectrum self' = whiten_spectrum self
     \<and> self' = fft_denoiser_soft_bypass (frame_received ext self p buffer)"
proof -
  have "is_empty (power_spectrum (processing_spectrums (frame_received ext self p buffer)))
          (sp_half_fft_size (frame_received ext self p buffer))"
    using assms(3) by (auto simp: frame_received_fields is_empty_def is_empty_loop_all)
  then have "frame_processed ext (frame_received ext self p buffer) p ns
      = frame_received ext self p buffer"
    by (simp add: frame_processed_def)
  then show ?thesis
    by (simp add: spectral_processor_run_eq[OF assms(1,2)] soft_bypass_fields
        frame_received_fields)
qed

theorem empty_spectrum_skips_pipeline_witness:
  "\<exists>self' out.
      spectral_processor_run stub_externals
        (load_processor_parameters example_processor example_parameters) (replicate 4 0)
        = Some (self', out)
     \<and> noise_profile self' = Some [0, 0, 0]
     \<and> denoise_builder self' = denoise_builder example_processor
     \<and> whiten_spectrum self' = whiten_spectrum example_processor"
proof -
  let ?self = "load_processor_parameters example_processor example_parameters"
  have p: "denoise_parameters ?self = Some example_parameters"
    by (simp add: load_processor_parameters_def)
  have n: "noise_profile ?self = Some [0, 0, 0]"
    by (simp add: load_processor_parameters_def example_processor_def load_noise_profile_def)
  have e: "\<forall>k \<le> sp_half_fft_size ?self.
           get_fft_power_spectrum stub_externals
             (take (sp_fft_size ?self) (replicate 4 0) @ drop (sp_fft_size ?self) (fft_spectrum ?self))
             (sp_fft_size ?self) (power_spectrum (processing_spectrums ?self))
             (sp_half_fft_size ?self) ! k \<le> FLT_MIN"
    by (simp add: load_processor_parameters_def example_processor_def load_noise_profile_def
        spectral_processor_initialize_def stub_externals_def halfcomplex_power_def FLT_MIN_def
        upt_small nth_Cons')
  from empty_spectrum_skips_pipeline[OF p n e] obtain self' out where
    "spectral_processor_run stub_externals ?self (replicate 4 0) = Some (self', out)"
    "noise_profile self' = noise_profile ?self"
    "denoise_builder self' = denoise_builder ?self"
    "whiten_spectrum self' = whiten_spectrum ?self"
    by blast
  moreover have "denoise_builder ?self = denoise_builder example_processor"
    "whiten_spectrum ?self = whiten_spectrum example_processor"
    by (simp_all add: load_processor_parameters_def)
  ultimately show ?thesis using n by auto
qed

subsection \<open>The DC bin\<close>

lemma copy_processed_out_dc:
  assumes "1 \<le> half" and "src \<noteq> []"
  shows "copy_processed_out ext dst src half ! 0 = src ! 0"
  using assms unfolding copy_processed_out_def
  by (cases src) (simp_all add: nth_append take_Suc_conv_app_nth)

text \<open>
  Claim C10. No call of \<^verbatim>\<open>spectral_processor_run\<close> changes index 0 of
  \<^verbatim>\<open>processed_fft_spectrum\<close>, whatever the state, the parameters and the input. So
  for a processor built with an FFT size of at least 2 and any sequence of frames, every
  call returns, index 0 of the processed spectrum is still the zero the constructor put
  there, and the value at index 0 of every buffer handed back to the caller is that zero.
\<close>

theorem dc_bin_never_written:
  assumes "spectral_processor_initialize ext sample_rate fft_size overlap_factor = Some s0"
    and "2 \<le> fft_size"
  shows "(\<forall>self buffer self' out.
            spectral_processor_run ext self buffer = Some (self', out) \<longrightarrow>
              processed_fft_spectrum self' ! 0 = processed_fft_spectrum self ! 0)
       \<and> (\<exists>s outs.
            spectral_processor_frames ext (load_noise_profile s0 profile) fs = Some (s, outs)
          \<and> length outs = length fs
          \<and> processed_fft_spectrum s ! 0 = 0
          \<and> (\<forall>out \<in> set outs. out ! 0 = 0))"
proof (intro conjI allI impI)
  fix self :: "('a, 'b) SpectralProcessor" and buffer self' out
  assume "spectral_processor_run ext self buffer = Some (self', out)"
  then show "processed_fft_spectrum self' ! 0 = processed_fft_spectrum self ! 0"
    by (rule run_fields(4))
next
  define P where "P t \<longleftrightarrow> 1 \<le> sp_half_fft_size t \<and> processed_fft_spectrum t \<noteq> []
      \<and> processed_fft_spectrum t ! 0 = 0" for t :: "('a, 'b) SpectralProcessor"
  have P0: "P (load_noise_profile s0 profile)"
    using assms(2) initialize_fields(1,2)[OF assms(1)]
    by (simp add: P_def load_noise_profile_def)
  have step: "P t' \<and> out ! 0 = 0"
    if "P t" and run: "spectral_processor_run ext (load_processor_parameters t p) buffer = Some (t', out)"
    for t t' :: "('a, 'b) SpectralProcessor" and p buffer out
  proof -
    note f = run_fields[OF run]
    have t': "1 \<le> sp_half_fft_size t'" "processed_fft_spectrum t' \<noteq> []"
      "processed_fft_spectrum t' ! 0 = 0"
      using that(1) f(1,3,4) unfolding P_def load_processor_parameters_def by auto
    with f(10) copy_processed_out_dc[OF t'(1,2)] show ?thesis unfolding P_def by simp
  qed
  have "noise_profile (load_noise_profile s0 profile) \<noteq> None"
    by (simp add: load_noise_profile_def)
  from frames_total[OF this, of ext fs] obtain s outs where
    fr: "spectral_processor_frames ext (load_noise_profile s0 profile) fs = Some (s, outs)"
    and len: "length outs = length fs" by blast
  have "P s"
    by (rule frames_invariant[OF fr, where P = P]) (use P0 step in blast)+
  moreover have "\<forall>out \<in> set outs. out ! 0 = 0"
    by (rule frames_outputs[OF fr, where P = P]) (use P0 step in blast)+
  ultimately show "\<exists>s outs.
            spectral_processor_frames ext (load_noise_profile s0 profile) fs = Some (s, outs)
          \<and> length outs = length fs
          \<and> processed_fft_spectrum s ! 0 = 0
          \<and> (\<forall>out \<in> set outs. out ! 0 = 0)"
    using fr len unfolding P_def by blast
qed

theorem dc_bin_never_written_witness:
  "\<exists>s outs. spectral_processor_frames stub_externals example_processor example_frames
               = Some (s, outs)
     \<and> length outs = 2 \<and> processed_fft_spectrum s ! 0 = 0
     \<and> outs ! 0 ! 0 = 0 \<and> outs ! 1 ! 0 = 0"
proof -
  have init: "spectral_processor_initialize stub_externals 48000 4 2
      = Some (the (spectral_processor_initialize stub_externals 48000 4 2))"
    by (simp add: spectral_processor_initialize_def)
  have two: "(2::nat) \<le> 4" by simp
  from dc_bin_never_written[OF init two, of "[0, 0, 0]" example_frames]
  obtain s outs where
    "spectral_processor_frames stub_externals example_processor example_frames = Some (s, outs)"
    "length outs = length example_frames" "processed_fft_spectrum s ! 0 = 0"
    "\<forall>out \<in> set outs. out ! 0 = 0"
    unfolding example_processor_def by blast
  moreover from this have "outs ! 0 ! 0 = 0" "outs ! 1 ! 0 = 0"
    by (simp_all add: example_frames_def)
  ultimately show ?thesis by (simp add: example_frames_def)
qed

subsection \<open>The floor of the residual maximum\<close>

lemma reachable_lengths:
  assumes init: "spectral_processor_initialize ext sample_rate fft_size overlap_factor = Some s0"
    and frames: "spectral_processor_frames ext (load_noise_profile s0 profile) fs = Some (s, outs)"
  shows "sp_half_fft_size s = fft_size div 2
    \<and> length (residual_max_spectrum (whiten_spectrum s)) = fft_size div 2 + 1
    \<and> residual_max_spectrum (whiten_spectrum s) ! 0 = 0
    \<and> (whitening_window_count (whiten_spectrum s) \<noteq> 0 \<longrightarrow>
         (\<forall>k. 1 \<le> k \<and> k \<le> fft_size div 2 \<longrightarrow>
            WHITENING_FLOOR \<le> residual_max_spectrum (whiten_spectrum s) ! k))"
proof (rule frames_invariant[OF frames, where P = "\<lambda>s. sp_half_fft_size s = fft_size div 2
    \<and> length (residual_max_spectrum (whiten_spectrum s)) = fft_size div 2 + 1
    \<and> residual_max_spectrum (whiten_spectrum s) ! 0 = 0
    \<and> (whitening_window_count (whiten_spectrum s) \<noteq> 0 \<longrightarrow>
         (\<forall>k. 1 \<le> k \<and> k \<le> fft_size div 2 \<longrightarrow>
            WHITENING_FLOOR \<le> residual_max_spectrum (whiten_spectrum s) ! k))"])
  show "sp_half_fft_size (load_noise_profile s0 profile) = fft_size div 2
    \<and> length (residual_max_spectrum (whiten_spectrum (load_noise_profile s0 profile))) = fft_size div 2 + 1
    \<and> residual_max_spectrum (whiten_spectrum (load_noise_profile s0 profile)) ! 0 = 0
    \<and> (whitening_window_count (whiten_spectrum (load_noise_profile s0 profile)) \<noteq> 0 \<longrightarrow>
         (\<forall>k. 1 \<le> k \<and> k \<le> fft_size div 2 \<longrightarrow>
            WHITENING_FLOOR \<le> residual_max_spectrum (whiten_spectrum (load_noise_profile s0 profile)) ! k))"
    using initialize_fields[OF init] by (simp add: load_noise_profile_def)
next
  fix t t' :: "('a, 'b) SpectralProcessor" and p buffer out
  assume P: "sp_half_fft_size t = fft_size div 2
    \<and> length (residual_max_spectrum (whiten_spectrum t)) = fft_size div 2 + 1
    \<and> residual_max_spectrum (whiten_spectrum t) ! 0 = 0
    \<and> (whitening_window_count (whiten_spectrum t) \<noteq> 0 \<longrightarrow>
         (\<forall>k. 1 \<le> k \<and> k \<le> fft_size div 2 \<longrightarrow>
            WHITENING_FLOOR \<le> residual_max_spectrum (whiten_spectrum t) ! k))"
    and run: "spectral_processor_run ext (load_processor_parameters t p) buffer = Some (t', out)"
  let ?t = "load_processor_parameters t p"
  have t: "sp_half_fft_size ?t = sp_half_fft_size t" "whiten_spectrum ?t = whiten_spectrum t"
    by (simp_all add: load_processor_parameters_def)
  note f = run_fields[OF run, unfolded t]
  have "whitening_window_count (whiten_spectrum t') \<noteq> 0 \<longrightarrow>
         (\<forall>k. 1 \<le> k \<and> k \<le> sp_half_fft_size ?t \<longrightarrow>
            WHITENING_FLOOR \<le> residual_max_spectrum (whiten_spectrum t') ! k)"
    by (rule run_whitening_inv[OF run]) (use P t in simp_all)
  with P f(1,5,6) t show "sp_half_fft_size t' = fft_size div 2
    \<and> length (residual_max_spectrum (whiten_spectrum t')) = fft_size div 2 + 1
    \<and> residual_max_spectrum (whiten_spectrum t') ! 0 = 0
    \<and> (whitening_window_count (whiten_spectrum t') \<noteq> 0 \<longrightarrow>
         (\<forall>k. 1 \<le> k \<and> k \<le> fft_size div 2 \<longrightarrow>
            WHITENING_FLOOR \<le> residual_max_spectrum (whiten_spectrum t') ! k))"
    by simp
qed

text \<open>
  Claim C7, as the code has it: for every bin \<open>k\<close> from 1 to \<open>half_fft_size\<close>. In every
  state a processor reaches from its constructor by any sequence of frames, once
  \<^verbatim>\<open>whitening_window_count\<close> is not zero the residual maximum of bin \<open>k\<close> is at least
  \<open>WHITENING_FLOOR\<close>, and it is so again after any further whitening update.
\<close>

theorem residual_max_floor_from_bin_1:
  assumes "spectral_processor_initialize ext sample_rate fft_size overlap_factor = Some s0"
    and "spectral_processor_frames ext (load_noise_profile s0 profile) fs = Some (s, outs)"
    and "1 \<le> k" and "k \<le> fft_size div 2"
  shows "(whitening_window_count (whiten_spectrum s) \<noteq> 0 \<longrightarrow>
            WHITENING_FLOOR \<le> residual_max_spectrum (whiten_spectrum s) ! k)
       \<and> WHITENING_FLOOR
            \<le> residual_max_spectrum (whiten_spectrum (residual_spectrum_whitening s factor)) ! k"
proof -
  note r = reachable_lengths[OF assms(1,2)]
  have "WHITENING_FLOOR
            \<le> residual_max_spectrum (whiten_spectrum (residual_spectrum_whitening s factor)) ! k"
    by (rule whitening_floor) (use r assms(3,4) in simp_all)
  with r assms(3,4) show ?thesis by simp
qed

theorem residual_max_floor_from_bin_1_witness:
  "\<exists>s outs. spectral_processor_frames stub_externals example_processor example_frames
               = Some (s, outs)
     \<and> whitening_window_count (whiten_spectrum s) = 1
     \<and> WHITENING_FLOOR \<le> residual_max_spectrum (whiten_spectrum s) ! 1
     \<and> WHITENING_FLOOR
         \<le> residual_max_spectrum (whiten_spectrum (residual_spectrum_whitening s 1)) ! 1"
proof -
  have init: "spectral_processor_initialize stub_externals 48000 4 2
      = Some (the (spectral_processor_initialize stub_externals 48000 4 2))"
    by (simp add: spectral_processor_initialize_def)
  from example_frames_run obtain s outs where
    fr: "spectral_processor_frames stub_externals example_processor example_frames = Some (s, outs)"
    and c: "whitening_window_count (whiten_spectrum s) = 1" by blast
  have k: "(1::nat) \<le> 1" "(1::nat) \<le> 4 div 2" by simp_all
  from residual_max_floor_from_bin_1[OF init fr[unfolded example_processor_def] k, of 1] c fr
  show ?thesis by auto
qed

text \<open>
  Bin 0 is outside every loop of the whitening stage: after the first whitening update
  of a fresh processor the counter is 1 and the residual maximum of bin 0 is still 0.
\<close>

theorem residual_max_dc_bin_counterexample:
  "\<not> (whitening_window_count (whiten_spectrum (residual_spectrum_whitening example_processor 1)) \<noteq> 0
        \<longrightarrow> WHITENING_FLOOR
          \<le> residual_max_spectrum (whiten_spectrum (residual_spectrum_whitening example_processor 1)) ! 0)"
  by (simp add: whitening_dc whitening_count example_processor_def load_noise_profile_def
      spectral_processor_initialize_def WHITENING_FLOOR_def)

section \<open>Properties of the STFT processor\<close>









lemma fft_window_length: "length (fft_window w n t) = length w"
  unfolding fft_window_def by (simp add: length_fold_update)






section \<open>Properties of the masking estimators\<close>



subsection \<open>src/src\<close>






subsection \<open>libnrepel\<close>




















section \<open>Persistence and reassembly at concrete inputs\<close>

text \<open>
  Claim C9 at a profile of three bins: the \<^verbatim>\<open>memcpy\<close> of \<^verbatim>\<open>plugin_state_savestate\<close>
  copies the first float only, so the profile \<open>[1, 2, 3]\<close> reaches the persisted
  structure as \<open>[1, 0, 0]\<close>.
\<close>

theorem savestate_copies_one_float:
  "np_values (ps_noise_profile (fst (plugin_state_savestate example_plugin_state empty_lv2_state
      4 10 [1, 2, 3]))) = [1, 0, 0]
   \<and> (case snd (plugin_state_savestate example_plugin_state empty_lv2_state 4 10 [1, 2, 3])
         (property_saved_noise_profile example_plugin_state) of
         Some e \<Rightarrow> entry_value e
       | None \<Rightarrow> PointerBytes)
       = ProfileValue \<lparr> child_size = 4, child_type = 2, noise_profile_size = 3,
                        np_values = [1, 0, 0] \<rparr>"
  by (simp add: plugin_state_savestate_def example_plugin_state_def noise_profile_initialize_def
      memcpy_floats_def sizeof_int_def sizeof_float_def Let_def store_def numeral_3_eq_3)

text \<open>
  Claim C2 at an engine with FFT size 2048 and half size 1024:
  \<^verbatim>\<open>plugin_state_restorestate\<close> compares the stored FFT size with
  \<^verbatim>\<open>half_fft_size\<close>. It accepts a state that was saved with FFT size 1024 and
  rejects one that was saved with FFT size 2048.
\<close>

theorem restorestate_compares_with_half_fft_size:
  "map_option fst (plugin_state_restorestate stored_structure example_plugin_state
      (snd (plugin_state_savestate example_plugin_state empty_lv2_state 1024 10 [1, 2, 3]))
      [0, 0, 0] 0 2048 1024) = Some True
   \<and> map_option fst (plugin_state_restorestate stored_structure example_plugin_state
      (snd (plugin_state_savestate example_plugin_state empty_lv2_state 2048 10 [1, 2, 3]))
      [0, 0, 0] 0 2048 1024) = Some False"
  by (simp add: plugin_state_restorestate_def plugin_state_savestate_def example_plugin_state_def
      noise_profile_initialize_def empty_lv2_state_def store_def retrieve_def Let_def
      sizeof_NoiseProfile_def)

text \<open>
  Claim C8 at a bin of magnitude 1 and phase 0: the loop writes \<open>1 + i\<close>, and
  \<open>magnitude \<cdot> (cos phase + i \<cdot> sin phase)\<close> is 1.
\<close>

theorem reassembly_uses_cos_for_imaginary_part:
  "run_reassemble_complex_spectrum [1] [0] 0 [0] ! 0 = Complex 1 1
   \<and> of_real 1 * cis 0 = Complex 1 0
   \<and> run_reassemble_complex_spectrum [1] [0] 0 [0] ! 0 \<noteq> of_real 1 * cis 0"
  by (simp add: run_reassemble_complex_spectrum_def Let_def complex_eq_iff)

end
